theory Spec2Isabelle
  imports Complex_Main
begin

section \<open>Time values and their UTC calendar fields\<close>

text \<open>
  \<open>getTimeAgo\<close> reads the UTC fields of a JavaScript \<open>Date\<close>. A \<open>Date\<close> holds a time
  value: an integral number of milliseconds since 1970-01-01T00:00:00Z, or NaN for an
  invalid date. A time value is an \<open>int option\<close> here, \<open>None\<close> being NaN. The field
  functions below are the ones the language standard gives for \<open>getUTCFullYear\<close>,
  \<open>getUTCMonth\<close>, \<open>getUTCDate\<close>, \<open>getUTCHours\<close> and \<open>getUTCMinutes\<close>, under the standard's
  names (\<open>Day\<close>, \<open>DayFromYear\<close>, \<open>YearFromTime\<close>, ...).
\<close>

definition msPerMinute :: int where
  "msPerMinute = 60000"

definition msPerHour :: int where
  "msPerHour = 3600000"

definition msPerDay :: int where
  "msPerDay = 86400000"

definition Day :: "int \<Rightarrow> int" where
  "Day t = t div msPerDay"

definition DaysInYear :: "int \<Rightarrow> int" where
  "DaysInYear y =
     (if y mod 4 \<noteq> 0 then 365
      else if y mod 100 \<noteq> 0 then 366
      else if y mod 400 \<noteq> 0 then 365
      else 366)"

definition DayFromYear :: "int \<Rightarrow> int" where
  "DayFromYear y =
     365 * (y - 1970) + (y - 1969) div 4 - (y - 1901) div 100 + (y - 1601) div 400"

text \<open>
  The standard defines \<open>YearFromTime t\<close> as the largest year \<open>y\<close> whose first day is not
  after \<open>t\<close>. An executable form: 400 years have 146097 days, so the year is within one of
  \<open>1970 + 400 * Day t div 146097\<close>; lemma \<open>YearFromTime_bounds\<close> below shows that the
  result is the year the standard asks for.
\<close>

definition YearFromTime :: "int \<Rightarrow> int" where
  "YearFromTime t =
     (let d = Day t; y = 1970 + (400 * d) div 146097
      in if DayFromYear (y + 1) \<le> d then y + 1
         else if DayFromYear y \<le> d then y
         else y - 1)"

definition InLeapYear :: "int \<Rightarrow> int" where
  "InLeapYear t = (if DaysInYear (YearFromTime t) = 366 then 1 else 0)"

definition DayWithinYear :: "int \<Rightarrow> int" where
  "DayWithinYear t = Day t - DayFromYear (YearFromTime t)"

definition MonthFromTime :: "int \<Rightarrow> int" where
  "MonthFromTime t =
     (let d = DayWithinYear t; l = InLeapYear t
      in if d < 31 then 0
         else if d < 59 + l then 1
         else if d < 90 + l then 2
         else if d < 120 + l then 3
         else if d < 151 + l then 4
         else if d < 181 + l then 5
         else if d < 212 + l then 6
         else if d < 243 + l then 7
         else if d < 273 + l then 8
         else if d < 304 + l then 9
         else if d < 334 + l then 10
         else 11)"

definition DateFromTime :: "int \<Rightarrow> int" where
  "DateFromTime t =
     (let d = DayWithinYear t; l = InLeapYear t; m = MonthFromTime t
      in if m = 0 then d + 1
         else if m = 1 then d - 30
         else if m = 2 then d - 58 - l
         else if m = 3 then d - 89 - l
         else if m = 4 then d - 119 - l
         else if m = 5 then d - 150 - l
         else if m = 6 then d - 180 - l
         else if m = 7 then d - 211 - l
         else if m = 8 then d - 242 - l
         else if m = 9 then d - 272 - l
         else if m = 10 then d - 303 - l
         else d - 333 - l)"

definition HourFromTime :: "int \<Rightarrow> int" where
  "HourFromTime t = (t div msPerHour) mod 24"

definition MinFromTime :: "int \<Rightarrow> int" where
  "MinFromTime t = (t div msPerMinute) mod 60"

text \<open>
  \<open>new Date(v)\<close> for a number \<open>v\<close>: NaN and values beyond 8.64e15 milliseconds on either
  side of the epoch give an invalid date (the standard's \<open>TimeClip\<close>).
\<close>

definition TimeClip :: "int option \<Rightarrow> int option" where
  "TimeClip v =
     (case v of
        None \<Rightarrow> None
      | Some t \<Rightarrow> if \<bar>t\<bar> > 8640000000000000 then None else Some t)"

text \<open>The getters: NaN on an invalid date.\<close>

definition getUTCMinutes :: "int option \<Rightarrow> int option" where
  "getUTCMinutes d = map_option MinFromTime d"

definition getUTCHours :: "int option \<Rightarrow> int option" where
  "getUTCHours d = map_option HourFromTime d"

definition getUTCDate :: "int option \<Rightarrow> int option" where
  "getUTCDate d = map_option DateFromTime d"

definition getUTCMonth :: "int option \<Rightarrow> int option" where
  "getUTCMonth d = map_option MonthFromTime d"

definition getUTCFullYear :: "int option \<Rightarrow> int option" where
  "getUTCFullYear d = map_option YearFromTime d"

subsection \<open>Numbers that may be NaN\<close>

text \<open>
  Subtraction gives NaN when an operand is NaN; a comparison with NaN is false; a
  template literal prints an integral number in decimal and NaN as \<open>NaN\<close>.
\<close>

definition minus_num :: "int option \<Rightarrow> int option \<Rightarrow> int option" where
  "minus_num a b =
     (case a of
        None \<Rightarrow> None
      | Some x \<Rightarrow> (case b of None \<Rightarrow> None | Some y \<Rightarrow> Some (x - y)))"

definition gt_num :: "int option \<Rightarrow> int \<Rightarrow> bool" where
  "gt_num a k = (case a of None \<Rightarrow> False | Some x \<Rightarrow> k < x)"

definition digit :: "nat \<Rightarrow> char" where
  "digit n = ''0123456789'' ! n"

fun toStringNat :: "nat \<Rightarrow> string" where
  "toStringNat n =
     (if n < 10 then [digit n] else toStringNat (n div 10) @ [digit (n mod 10)])"

declare toStringNat.simps [simp del]

definition toStringInt :: "int \<Rightarrow> string" where
  "toStringInt i = (if i < 0 then ''-'' @ toStringNat (nat (- i)) else toStringNat (nat i))"

definition toStringNum :: "int option \<Rightarrow> string" where
  "toStringNum a = (case a of None \<Rightarrow> ''NaN'' | Some x \<Rightarrow> toStringInt x)"

section \<open>The time-ago formatter\<close>

text \<open>
  \<open>getTimeAgo\<close> of \<open>Reviews.tsx\<close>. The clock and the date parser belong to the platform
  and are inputs of the model: \<open>now\<close> is the time value of \<open>new Date()\<close>, and \<open>beforeTime\<close> is
  that of the source's \<open>before = new Date(time + ' UTC')\<close>, NaN when the string does not parse.
  \<open>diff\<close> is the date whose time value is the elapsed time \<open>now - before\<close>.
\<close>

definition getTimeAgo :: "int \<Rightarrow> int option \<Rightarrow> string" where
  "getTimeAgo now beforeTime =
     (let diff = TimeClip (minus_num (Some now) beforeTime);
          minutes = getUTCMinutes diff;
          hours = getUTCHours diff;
          days = minus_num (getUTCDate diff) (Some 1);
          months = getUTCMonth diff;
          years = minus_num (getUTCFullYear diff) (Some 1970)
      in if gt_num years 0 then
           toStringNum years @ '' '' @ (if gt_num years 1 then ''years'' else ''year'') @ '' ago''
         else if gt_num months 0 then
           toStringNum months @ '' '' @ (if gt_num months 1 then ''months'' else ''month'') @ '' ago''
         else if gt_num days 0 then
           toStringNum days @ '' '' @ (if gt_num days 1 then ''days'' else ''day'') @ '' ago''
         else if gt_num hours 0 then
           toStringNum hours @ '' '' @ (if gt_num hours 1 then ''hours'' else ''hour'') @ '' ago''
         else if gt_num minutes 0 then
           toStringNum minutes @ '' '' @ (if gt_num minutes 1 then ''minutes'' else ''minute'') @ '' ago''
         else ''just now'')"

section \<open>The view state and its reducer\<close>

text \<open>
  The interfaces \<open>Review\<close> and \<open>State\<close> of \<open>Reviews.tsx\<close>. The \<open>number\<close> fields that hold
  identifiers, ratings, offsets, sizes and counts are integers; the average rating is a
  rational. \<open>reviews\<close> is \<open>Review[] | null\<close>: \<open>None\<close> is \<open>null\<close>. Field names that are
  taken in HOL carry a suffix (\<open>id_r\<close>, \<open>text_r\<close>, \<open>sort_st\<close>, \<open>total_st\<close>).
\<close>

record Review =
  id_r :: int
  cacheId :: int
  productId :: string
  rating :: int
  title :: string
  text_r :: string
  reviewerName :: string
  shopperId :: string
  reviewDateTime :: string
  verifiedPurchaser :: bool

record State =
  sort_st :: string
  offset :: int
  limit :: int
  reviews :: "Review list option"
  total_st :: int
  average :: rat
  hasTotal :: bool
  hasAverage :: bool
  showForm :: bool

text \<open>
  \<open>ReducerActions\<close>: the seven members of the union, each with its \<open>args\<close>. The payload of
  \<open>SET_REVIEWS\<close> comes from a query response and may be \<open>null\<close> or \<open>undefined\<close> at run time
  (\<open>None\<close>), which the reducer provides for. \<open>OTHER_ACTION t\<close> is an action object whose
  \<open>type\<close> is the string \<open>t\<close>, none of the seven: the union excludes it, the compiled
  \<open>switch\<close> can still be handed one.
\<close>

datatype ReducerActions =
    SET_NEXT_PAGE
  | SET_PREV_PAGE
  | TOGGLE_REVIEW_FORM
  | SET_SELECTED_SORT string
  | SET_REVIEWS "Review list option"
  | SET_TOTAL int
  | SET_AVERAGE rat
  | OTHER_ACTION string

fun actionType :: "ReducerActions \<Rightarrow> string" where
  "actionType SET_NEXT_PAGE = ''SET_NEXT_PAGE''"
| "actionType SET_PREV_PAGE = ''SET_PREV_PAGE''"
| "actionType TOGGLE_REVIEW_FORM = ''TOGGLE_REVIEW_FORM''"
| "actionType (SET_SELECTED_SORT k) = ''SET_SELECTED_SORT''"
| "actionType (SET_REVIEWS r) = ''SET_REVIEWS''"
| "actionType (SET_TOTAL n) = ''SET_TOTAL''"
| "actionType (SET_AVERAGE q) = ''SET_AVERAGE''"
| "actionType (OTHER_ACTION t) = t"

definition recognizedTypes :: "string list" where
  "recognizedTypes =
     [''SET_NEXT_PAGE'', ''SET_PREV_PAGE'', ''TOGGLE_REVIEW_FORM'', ''SET_SELECTED_SORT'',
      ''SET_REVIEWS'', ''SET_TOTAL'', ''SET_AVERAGE'']"

definition options :: "(string \<times> string) list" where
  "options =
     [(''Most Recent'', ''ReviewDateTime:desc''),
      (''Oldest'', ''ReviewDateTime:asc''),
      (''Highest Rated'', ''Rating:desc''),
      (''Lowest Rated'', ''Rating:asc'')]"

definition initialState :: State where
  "initialState =
     \<lparr>sort_st = ''ReviewDateTime:desc'', offset = 0, limit = 10, reviews = None,
      total_st = 0, average = 0, hasTotal = False, hasAverage = False, showForm = False\<rparr>"

text \<open>
  The reducer is a \<open>switch\<close> on \<open>action.type\<close> with seven cases and no \<open>default\<close>: for any
  other type the function ends without a \<open>return\<close>, so its value is \<open>undefined\<close>, which is
  \<open>None\<close> here. \<open>action.args.reviews || []\<close> is the array when there is one (an array is
  truthy, also when empty) and \<open>[]\<close> for \<open>null\<close> and \<open>undefined\<close>.
\<close>

fun reducer :: "State \<Rightarrow> ReducerActions \<Rightarrow> State option" where
  "reducer state SET_NEXT_PAGE =
     Some (state\<lparr>offset := offset state + limit state\<rparr>)"
| "reducer state SET_PREV_PAGE =
     Some (state\<lparr>offset :=
       (if offset state - limit state < 0 then 0 else offset state - limit state)\<rparr>)"
| "reducer state TOGGLE_REVIEW_FORM =
     Some (state\<lparr>showForm := \<not> showForm state\<rparr>)"
| "reducer state (SET_SELECTED_SORT k) =
     Some (state\<lparr>sort_st := k\<rparr>)"
| "reducer state (SET_REVIEWS r) =
     Some (state\<lparr>reviews := Some (case r of None \<Rightarrow> [] | Some rs \<Rightarrow> rs)\<rparr>)"
| "reducer state (SET_TOTAL n) =
     Some (state\<lparr>total_st := n, hasTotal := True\<rparr>)"
| "reducer state (SET_AVERAGE q) =
     Some (state\<lparr>average := q, hasAverage := True\<rparr>)"
| "reducer state (OTHER_ACTION t) = None"

text \<open>
  \<open>useReducer\<close> feeds every dispatched action to the reducer, starting from the state it
  holds. \<open>dispatchAll s as\<close> is the state after the actions \<open>as\<close>, in order; once the reducer
  has returned \<open>undefined\<close> there is no state left to go on from.
\<close>

fun dispatchAll :: "State \<Rightarrow> ReducerActions list \<Rightarrow> State option" where
  "dispatchAll s [] = Some s"
| "dispatchAll s (a # as) =
     (case reducer s a of None \<Rightarrow> None | Some s' \<Rightarrow> dispatchAll s' as)"

section \<open>What the component renders\<close>

text \<open>
  The summary region (\<open>review__rating\<close>): the loading text, \<open>null\<close>, or the fragment with
  the stars (given the average as rating), the average in front of \<open>Average Rating\<close>, and
  the count text \<open>(N Reviews)\<close>.
\<close>

datatype SummaryRegion =
    LoadingSummary
  | NoSummary
  | RatingSummary rat rat string

definition renderSummary :: "State \<Rightarrow> SummaryRegion" where
  "renderSummary state =
     (if \<not> hasTotal state \<or> \<not> hasAverage state then LoadingSummary
      else if total_st state = 0 then NoSummary
      else RatingSummary (average state) (average state)
             (''('' @ toStringInt (total_st state) @ '' Reviews)''))"

text \<open>
  The list region (\<open>review__comments\<close>): the loading text while \<open>reviews\<close> is \<open>null\<close>, the
  \<open>No reviews.\<close> block for an empty page, else the sort dropdown, one entry per review and
  the \<open>Pagination\<close> element. \<open>Pagination\<close> is a component of the style guide library;
  the model records the props it is given, the two click handlers as the action each
  dispatches. \<open>dateParse\<close> is the platform's \<open>new Date(string)\<close>, \<open>now\<close> the clock.
\<close>

record ReviewEntry =
  starsRating :: int
  heading :: string
  verifiedBadge :: bool
  submitted :: string
  byName :: string
  body :: string

record PaginationProps =
  textShowRows :: string
  currentItemFrom :: int
  currentItemTo :: int
  textOf :: string
  totalItems :: int
  onNextClick :: ReducerActions
  onPrevClick :: ReducerActions

datatype CommentsRegion =
    LoadingReviews
  | NoReviews
  | ReviewList "(string \<times> string) list" string "ReviewEntry list" PaginationProps

definition reviewEntry :: "(string \<Rightarrow> int option) \<Rightarrow> int \<Rightarrow> Review \<Rightarrow> ReviewEntry" where
  "reviewEntry dateParse now review =
     \<lparr>starsRating = rating review,
      heading = title review,
      verifiedBadge = verifiedPurchaser review,
      submitted = getTimeAgo now (dateParse (reviewDateTime review @ '' UTC'')),
      byName = reviewerName review,
      body = text_r review\<rparr>"

definition paginationProps :: "State \<Rightarrow> PaginationProps" where
  "paginationProps state =
     \<lparr>textShowRows = [],
      currentItemFrom = offset state + 1,
      currentItemTo = offset state + limit state,
      textOf = ''of'',
      totalItems = total_st state,
      onNextClick = SET_NEXT_PAGE,
      onPrevClick = SET_PREV_PAGE\<rparr>"

definition renderComments :: "(string \<Rightarrow> int option) \<Rightarrow> int \<Rightarrow> State \<Rightarrow> CommentsRegion" where
  "renderComments dateParse now state =
     (case reviews state of
        None \<Rightarrow> LoadingReviews
      | Some rs \<Rightarrow>
          if length rs \<noteq> 0 then
            ReviewList options (sort_st state) (map (reviewEntry dateParse now) rs)
              (paginationProps state)
          else NoReviews)"

section \<open>The formatter's policy in the words of the specification\<close>

text \<open>
  The specification describes \<open>getTimeAgo\<close> as: take the units years, months, days, hours
  and minutes, return the largest one that is not zero, worded in the singular when its
  value is exactly 1 and in the plural otherwise, and \<open>just now\<close> when all are zero.
  \<open>largestNonZeroUnit\<close> follows these words, for a list of units from the largest to the
  smallest, each with its singular name.
\<close>

definition wording :: "int \<Rightarrow> string \<Rightarrow> string" where
  "wording v u = toStringInt v @ '' '' @ (if v = 1 then u else u @ ''s'') @ '' ago''"

fun largestNonZeroUnit :: "(int \<times> string) list \<Rightarrow> string" where
  "largestNonZeroUnit [] = ''just now''"
| "largestNonZeroUnit ((v, u) # rest) =
     (if v \<noteq> 0 then wording v u else largestNonZeroUnit rest)"

text \<open>
  The units as the specification words them: each UTC field of \<open>now\<close> minus the same field
  of the timestamp.
\<close>

definition fieldSubtraction :: "int \<Rightarrow> int \<Rightarrow> (int \<times> string) list" where
  "fieldSubtraction now t =
     [(YearFromTime now - YearFromTime t, ''year''),
      (MonthFromTime now - MonthFromTime t, ''month''),
      (DateFromTime now - DateFromTime t, ''day''),
      (HourFromTime now - HourFromTime t, ''hour''),
      (MinFromTime now - MinFromTime t, ''minute'')]"

text \<open>
  The units as the source computes them: the UTC fields of the date that lies the elapsed
  time \<open>t = now - before\<close> after the epoch, less the fields of the epoch itself (year 1970,
  month 0, day 1, hour 0, minute 0).
\<close>

definition elapsedFields :: "int \<Rightarrow> (int \<times> string) list" where
  "elapsedFields t =
     [(YearFromTime t - 1970, ''year''),
      (MonthFromTime t, ''month''),
      (DateFromTime t - 1, ''day''),
      (HourFromTime t, ''hour''),
      (MinFromTime t, ''minute'')]"

section \<open>Calendar fields: the year is the right one, and the fields are in range\<close>

lemma int_div_lower: "0 < k \<Longrightarrow> k * (x div k) \<le> (x::int)"
  using mult_div_mod_eq [of k x] pos_mod_sign [of k x] by linarith

lemma int_div_upper: "0 < k \<Longrightarrow> (x::int) + 1 \<le> k * (x div k) + k"
  using mult_div_mod_eq [of k x] pos_mod_bound [of k x] by linarith

text \<open>The first day of year \<open>y\<close> is within a day and a half of \<open>365.2425 * (y - 1970)\<close>.\<close>

lemma DayFromYear_le: "400 * DayFromYear y \<le> 146097 * y - 287810501"
proof -
  define A where "A = (y - 1969) div 4"
  define B where "B = (y - 1901) div 100"
  define C where "C = (y - 1601) div 400"
  have a: "4 * A \<le> y - 1969"
    unfolding A_def by (rule int_div_lower) simp
  have b: "y - 1901 + 1 \<le> 100 * B + 100"
    unfolding B_def by (rule int_div_upper) simp
  have c: "400 * C \<le> y - 1601"
    unfolding C_def by (rule int_div_lower) simp
  have "DayFromYear y = 365 * y - 719050 + A - B + C"
    by (simp add: DayFromYear_def A_def B_def C_def)
  with a b c show ?thesis by linarith
qed

lemma DayFromYear_ge: "146097 * y - 287811596 \<le> 400 * DayFromYear y"
proof -
  define A where "A = (y - 1969) div 4"
  define B where "B = (y - 1901) div 100"
  define C where "C = (y - 1601) div 400"
  have a: "y - 1969 + 1 \<le> 4 * A + 4"
    unfolding A_def by (rule int_div_upper) simp
  have b: "100 * B \<le> y - 1901"
    unfolding B_def by (rule int_div_lower) simp
  have c: "y - 1601 + 1 \<le> 400 * C + 400"
    unfolding C_def by (rule int_div_upper) simp
  have "DayFromYear y = 365 * y - 719050 + A - B + C"
    by (simp add: DayFromYear_def A_def B_def C_def)
  with a b c show ?thesis by linarith
qed

lemma YearFromTime_lower: "DayFromYear (YearFromTime t) \<le> Day t"
proof -
  define d where "d = Day t"
  define q where "q = (400 * d) div 146097"
  define y where "y = 1970 + q"
  have "146097 * q \<le> 400 * d"
    unfolding q_def by (rule int_div_lower) simp
  then have est: "146097 * y - 287811090 \<le> 400 * d"
    unfolding y_def by (simp add: algebra_simps)
  have "400 * DayFromYear (y - 1) \<le> 146097 * y - 287956598"
    using DayFromYear_le [of "y - 1"] by (simp add: algebra_simps)
  with est have "DayFromYear (y - 1) \<le> d"
    by linarith
  then show ?thesis
    unfolding YearFromTime_def Let_def d_def [symmetric] q_def [symmetric] y_def [symmetric]
    by simp
qed

lemma YearFromTime_upper: "Day t < DayFromYear (YearFromTime t + 1)"
proof -
  define d where "d = Day t"
  define q where "q = (400 * d) div 146097"
  define y where "y = 1970 + q"
  have "400 * d + 1 \<le> 146097 * q + 146097"
    unfolding q_def by (rule int_div_upper) simp
  then have est: "400 * d + 1 \<le> 146097 * y - 287664993"
    unfolding y_def by (simp add: algebra_simps)
  have "146097 * y - 287519402 \<le> 400 * DayFromYear (y + 2)"
    using DayFromYear_ge [of "y + 2"] by (simp add: algebra_simps)
  with est have "d < DayFromYear (y + 2)"
    by linarith
  then show ?thesis
    unfolding YearFromTime_def Let_def d_def [symmetric] q_def [symmetric] y_def [symmetric]
    by (simp add: algebra_simps)
qed

text \<open>
  \<open>YearFromTime t\<close> is the year the standard asks for: its first day is not after \<open>t\<close>, and
  the first day of the next year is.
\<close>

lemma YearFromTime_bounds:
  "DayFromYear (YearFromTime t) \<le> Day t \<and> Day t < DayFromYear (YearFromTime t + 1)"
  using YearFromTime_lower [of t] YearFromTime_upper [of t] by simp

lemma Day_nonneg: "0 \<le> t \<Longrightarrow> 0 \<le> Day t"
  by (simp add: Day_def msPerDay_def pos_imp_zdiv_nonneg_iff)

lemma DayFromYear_1970: "DayFromYear 1970 = 0"
  by (simp add: DayFromYear_def)

lemma YearFromTime_ge_1970:
  assumes "0 \<le> t"
  shows "1970 \<le> YearFromTime t"
proof -
  define d where "d = Day t"
  define q where "q = (400 * d) div 146097"
  have d: "0 \<le> d"
    unfolding d_def using assms by (rule Day_nonneg)
  then have q: "0 \<le> q"
    unfolding q_def by (simp add: pos_imp_zdiv_nonneg_iff)
  have "q \<noteq> 0" if "\<not> DayFromYear (1970 + q) \<le> d"
    using that d DayFromYear_1970 by auto
  with q have "1 \<le> q" if "\<not> DayFromYear (1970 + q) \<le> d"
    using that by force
  with q show ?thesis
    unfolding YearFromTime_def Let_def d_def [symmetric] q_def [symmetric] by auto
qed

lemma DayWithinYear_nonneg: "0 \<le> DayWithinYear t"
  using YearFromTime_lower [of t] by (simp add: DayWithinYear_def)

lemma InLeapYear_cases: "InLeapYear t = 0 \<or> InLeapYear t = 1"
  by (simp add: InLeapYear_def)

lemma MonthFromTime_range: "0 \<le> MonthFromTime t \<and> MonthFromTime t \<le> 11"
  by (simp add: MonthFromTime_def Let_def)

lemma DateFromTime_ge_1: "1 \<le> DateFromTime t"
proof -
  define d where "d = DayWithinYear t"
  define l where "l = InLeapYear t"
  have d: "0 \<le> d"
    unfolding d_def by (rule DayWithinYear_nonneg)
  have l: "l = 0 \<or> l = 1"
    unfolding l_def by (rule InLeapYear_cases)
  show ?thesis
    unfolding DateFromTime_def MonthFromTime_def Let_def d_def [symmetric] l_def [symmetric]
    using d l by (auto split: if_splits)
qed

lemma HourFromTime_range: "0 \<le> HourFromTime t \<and> HourFromTime t < 24"
  by (simp add: HourFromTime_def)

lemma MinFromTime_range: "0 \<le> MinFromTime t \<and> MinFromTime t < 60"
  by (simp add: MinFromTime_def)

text \<open>
  The time values used below, read back as UTC instants: 1577838600000 is
  2020-01-01T00:30:00Z, 1577844000000 is 2020-01-01T02:00:00Z, 1577836800000 is
  2020-01-01T00:00:00Z, 1577836740000 is 2019-12-31T23:59:00Z and 1577836860000 is
  2020-01-01T00:01:00Z (months count from 0).
\<close>

lemma instant_fields:
  "(YearFromTime 1577838600000, MonthFromTime 1577838600000, DateFromTime 1577838600000,
    HourFromTime 1577838600000, MinFromTime 1577838600000, 1577838600000 mod msPerMinute) =
     (2020, 0, 1, 0, 30, 0) \<and>
   (YearFromTime 1577844000000, MonthFromTime 1577844000000, DateFromTime 1577844000000,
    HourFromTime 1577844000000, MinFromTime 1577844000000, 1577844000000 mod msPerMinute) =
     (2020, 0, 1, 2, 0, 0) \<and>
   (YearFromTime 1577836800000, MonthFromTime 1577836800000, DateFromTime 1577836800000,
    HourFromTime 1577836800000, MinFromTime 1577836800000, 1577836800000 mod msPerMinute) =
     (2020, 0, 1, 0, 0, 0) \<and>
   (YearFromTime 1577836740000, MonthFromTime 1577836740000, DateFromTime 1577836740000,
    HourFromTime 1577836740000, MinFromTime 1577836740000, 1577836740000 mod msPerMinute) =
     (2019, 11, 31, 23, 59, 0) \<and>
   (YearFromTime 1577836860000, MonthFromTime 1577836860000, DateFromTime 1577836860000,
    HourFromTime 1577836860000, MinFromTime 1577836860000, 1577836860000 mod msPerMinute) =
     (2020, 0, 1, 0, 1, 0)"
  by code_simp

section \<open>The time-ago formatter: claims C1 and C7\<close>

text \<open>
  With a valid timestamp and an elapsed time inside the range of \<open>Date\<close>, no NaN arises
  and \<open>getTimeAgo\<close> is the chain of comparisons on the integer fields.
\<close>

lemma getTimeAgo_valid:
  assumes "\<bar>now - b\<bar> \<le> 8640000000000000"
  shows "getTimeAgo now (Some b) =
     (let t = now - b; minutes = MinFromTime t; hours = HourFromTime t;
          days = DateFromTime t - 1; months = MonthFromTime t; years = YearFromTime t - 1970
      in if 0 < years then
           toStringInt years @ '' '' @ (if 1 < years then ''years'' else ''year'') @ '' ago''
         else if 0 < months then
           toStringInt months @ '' '' @ (if 1 < months then ''months'' else ''month'') @ '' ago''
         else if 0 < days then
           toStringInt days @ '' '' @ (if 1 < days then ''days'' else ''day'') @ '' ago''
         else if 0 < hours then
           toStringInt hours @ '' '' @ (if 1 < hours then ''hours'' else ''hour'') @ '' ago''
         else if 0 < minutes then
           toStringInt minutes @ '' '' @ (if 1 < minutes then ''minutes'' else ''minute'') @ '' ago''
         else ''just now'')"
  using assms
  by (simp add: getTimeAgo_def TimeClip_def minus_num_def gt_num_def toStringNum_def
      getUTCMinutes_def getUTCHours_def getUTCDate_def getUTCMonth_def getUTCFullYear_def Let_def)

text \<open>An invalid timestamp makes every field NaN, every comparison false.\<close>

lemma getTimeAgo_invalid: "getTimeAgo now None = ''just now''"
  by (simp add: getTimeAgo_def TimeClip_def minus_num_def gt_num_def
      getUTCMinutes_def getUTCHours_def getUTCDate_def getUTCMonth_def getUTCFullYear_def)

lemma unit_chain:
  fixes years months days hours minutes :: int
  assumes "0 \<le> years" "0 \<le> months" "0 \<le> days" "0 \<le> hours" "0 \<le> minutes"
  shows "(if 0 < years then
           toStringInt years @ '' '' @ (if 1 < years then ''years'' else ''year'') @ '' ago''
         else if 0 < months then
           toStringInt months @ '' '' @ (if 1 < months then ''months'' else ''month'') @ '' ago''
         else if 0 < days then
           toStringInt days @ '' '' @ (if 1 < days then ''days'' else ''day'') @ '' ago''
         else if 0 < hours then
           toStringInt hours @ '' '' @ (if 1 < hours then ''hours'' else ''hour'') @ '' ago''
         else if 0 < minutes then
           toStringInt minutes @ '' '' @ (if 1 < minutes then ''minutes'' else ''minute'') @ '' ago''
         else ''just now'') =
        largestNonZeroUnit
          [(years, ''year''), (months, ''month''), (days, ''day''), (hours, ''hour''),
           (minutes, ''minute'')]"
  using assms by (auto simp: wording_def)



text \<open>
  C7, as the source has it: for every valid timestamp that is not later than now (the
  elapsed time being inside the range of \<open>Date\<close>), \<open>getTimeAgo\<close> returns the largest
  non-zero unit among years, months, days, hours and minutes, singular when the value is
  exactly 1 and plural otherwise, and \<open>just now\<close> when all five are zero; the units are the
  UTC calendar fields of the elapsed time laid out from the epoch (\<open>elapsedFields\<close>), not
  the differences of the fields of now and of the timestamp.
\<close>

theorem getTimeAgo_largest_elapsed_unit:
  assumes "b \<le> now" and "now - b \<le> 8640000000000000"
  shows "getTimeAgo now (Some b) = largestNonZeroUnit (elapsedFields (now - b))"
proof -
  define t where "t = now - b"
  have t: "0 \<le> t" "\<bar>now - b\<bar> \<le> 8640000000000000"
    using assms by (simp_all add: t_def)
  have y: "0 \<le> YearFromTime t - 1970"
    using YearFromTime_ge_1970 [OF t(1)] by simp
  have m: "0 \<le> MonthFromTime t"
    using MonthFromTime_range [of t] by simp
  have d: "0 \<le> DateFromTime t - 1"
    using DateFromTime_ge_1 [of t] by simp
  have h: "0 \<le> HourFromTime t"
    using HourFromTime_range [of t] by simp
  have mi: "0 \<le> MinFromTime t"
    using MinFromTime_range [of t] by simp
  show ?thesis
    unfolding getTimeAgo_valid [OF t(2)] elapsedFields_def t_def [symmetric] Let_def
    by (rule unit_chain [OF y m d h mi])
qed

text \<open>
  A timestamp two hours before now, at 2020-01-01T00:00:00Z and 2020-01-01T02:00:00Z.
\<close>

theorem getTimeAgo_largest_elapsed_unit_witness:
  "getTimeAgo 1577844000000 (Some 1577836800000) = ''2 hours ago'' \<and>
   largestNonZeroUnit (elapsedFields (1577844000000 - 1577836800000)) = ''2 hours ago''"
proof -
  have e: "largestNonZeroUnit (elapsedFields (1577844000000 - 1577836800000)) = ''2 hours ago''"
    by code_simp
  have "(1577836800000::int) \<le> 1577844000000"
    and "(1577844000000::int) - 1577836800000 \<le> 8640000000000000"
    by simp_all
  from getTimeAgo_largest_elapsed_unit [OF this] e show ?thesis by simp
qed

text \<open>
  C7 as claimed fails. One minute across the turn of the year, from 2019-12-31T23:59:00Z
  to 2020-01-01T00:00:00Z: the year fields of the two instants differ by 1, so field
  subtraction makes the largest non-zero unit one year, and the source answers
  \<open>1 minute ago\<close>. And for a timestamp one minute after now the fields of the elapsed time
  start with the year at -1 and the month at 11: the source passes over the non-zero
  year and answers \<open>11 months ago\<close>.
\<close>

theorem getTimeAgo_not_field_subtraction:
  "getTimeAgo 1577836800000 (Some 1577836740000) = ''1 minute ago'' \<and>
   largestNonZeroUnit (fieldSubtraction 1577836800000 1577836740000) = ''1 year ago'' \<and>
   getTimeAgo 1577836800000 (Some 1577836860000) = ''11 months ago'' \<and>
   largestNonZeroUnit (elapsedFields (1577836800000 - 1577836860000)) = ''-1 years ago''"
  by code_simp

section \<open>The reducer: claims C2, C3, C4, C5, C9 and C10\<close>

lemma reducer_limit: "reducer s a = Some s' \<Longrightarrow> limit s' = limit s"
  by (cases a) auto

lemma reducer_offset_nonneg:
  "reducer s a = Some s' \<Longrightarrow> 0 \<le> offset s \<Longrightarrow> 0 \<le> limit s \<Longrightarrow> 0 \<le> offset s'"
  by (cases a) auto

lemma dispatchAll_invariant:
  "dispatchAll s acts = Some s' \<Longrightarrow> 0 \<le> offset s \<Longrightarrow> 0 \<le> limit s \<Longrightarrow>
   0 \<le> offset s' \<and> limit s' = limit s"
proof (induction acts arbitrary: s)
  case Nil
  then show ?case by simp
next
  case (Cons a acts)
  from Cons.prems(1) obtain s1
    where s1: "reducer s a = Some s1" "dispatchAll s1 acts = Some s'"
    by (auto split: option.splits)
  have "0 \<le> offset s1" "limit s1 = limit s"
    using s1(1) Cons.prems(2,3) by (auto dest: reducer_offset_nonneg reducer_limit)
  with Cons.IH [OF s1(2)] Cons.prems(3) show ?case by simp
qed

text \<open>Every sequence of actions of the seven kinds leads to a state.\<close>

lemma dispatchAll_total:
  "\<forall>a \<in> set acts. \<forall>t. a \<noteq> OTHER_ACTION t \<Longrightarrow> \<exists>s'. dispatchAll s acts = Some s'"
proof (induction acts arbitrary: s)
  case Nil
  then show ?case by simp
next
  case (Cons a acts)
  then obtain s1 where "reducer s a = Some s1"
    by (cases a) auto
  with Cons show ?case by auto
qed

text \<open>
  C2, as the source has it: for every state \<open>s\<close> and every action whose type is none of
  the seven recognized ones, the reducer does not throw and returns \<open>undefined\<close>, no state
  at all: the \<open>switch\<close> has no \<open>default\<close> branch, and the type of the actions admits the
  seven kinds only.
\<close>

theorem reducer_unrecognized_undefined:
  "actionType a \<notin> set recognizedTypes \<Longrightarrow> reducer s a = None"
  by (cases a) (simp_all add: recognizedTypes_def)

theorem reducer_unrecognized_undefined_witness:
  "actionType (OTHER_ACTION ''RESET'') \<notin> set recognizedTypes \<and>
   reducer initialState (OTHER_ACTION ''RESET'') = None"
proof -
  have h: "actionType (OTHER_ACTION ''RESET'') \<notin> set recognizedTypes"
    by (simp add: recognizedTypes_def)
  show ?thesis
    using h reducer_unrecognized_undefined [OF h, of initialState] by simp
qed

text \<open>
  C2 as claimed fails: the action of type \<open>RESET\<close> is not recognized, and the reducer
  does not return the initial state unchanged for it.
\<close>

theorem reducer_unrecognized_not_noop:
  "actionType (OTHER_ACTION ''RESET'') \<notin> set recognizedTypes \<and>
   reducer initialState (OTHER_ACTION ''RESET'') \<noteq> Some initialState"
  by (simp add: recognizedTypes_def)

text \<open>
  C3: for every state with a non-negative offset, \<open>SET_PREV_PAGE\<close> yields a state whose
  offset is \<open>max 0 (offset - limit)\<close>; in particular the new offset is never negative.
\<close>

theorem prev_page_offset_max:
  "0 \<le> offset s \<Longrightarrow>
   \<exists>s'. reducer s SET_PREV_PAGE = Some s' \<and> offset s' = max 0 (offset s - limit s) \<and>
     0 \<le> offset s'"
  by auto

theorem prev_page_offset_max_witness:
  "(\<exists>s'. reducer (initialState\<lparr>offset := 30\<rparr>) SET_PREV_PAGE = Some s' \<and> offset s' = 20) \<and>
   (\<exists>s'. reducer (initialState\<lparr>offset := 0\<rparr>) SET_PREV_PAGE = Some s' \<and> offset s' = 0)"
  using prev_page_offset_max [of "initialState\<lparr>offset := 30\<rparr>"]
    prev_page_offset_max [of "initialState\<lparr>offset := 0\<rparr>"]
  by (simp add: initialState_def)



text \<open>
  C5: for every state and every sort key string \<open>k\<close>, \<open>SET_SELECTED_SORT\<close> with \<open>k\<close>
  changes the sort field to \<open>k\<close> and nothing else: the offset and every other field of the
  state are unchanged.
\<close>

theorem set_sort_frame:
  "\<exists>s'. reducer s (SET_SELECTED_SORT k) = Some s' \<and> s' = s\<lparr>sort_st := k\<rparr> \<and>
     sort_st s' = k \<and> offset s' = offset s \<and> limit s' = limit s \<and> reviews s' = reviews s \<and>
     total_st s' = total_st s \<and> average s' = average s \<and> hasTotal s' = hasTotal s \<and>
     hasAverage s' = hasAverage s \<and> showForm s' = showForm s"
  by simp

theorem set_sort_frame_witness:
  "reducer (initialState\<lparr>offset := 20\<rparr>) (SET_SELECTED_SORT ''Rating:desc'') =
     Some (initialState\<lparr>sort_st := ''Rating:desc'', offset := 20\<rparr>)"
  using set_sort_frame [of "initialState\<lparr>offset := 20\<rparr>" "''Rating:desc''"]
  by (simp add: initialState_def)

text \<open>
  C9: starting from the initial state (offset 0, limit 10), every state reached by any
  sequence of reducer actions has a non-negative offset and the limit 10; no reducer
  action ever modifies the page size.
\<close>

theorem reachable_offset_limit:
  assumes "dispatchAll initialState acts = Some s"
  shows "0 \<le> offset s \<and> limit s = 10 \<and>
         (\<forall>t a t'. reducer t a = Some t' \<longrightarrow> limit t' = limit t)"
  using dispatchAll_invariant [OF assms] reducer_limit by (auto simp: initialState_def)

theorem reachable_offset_limit_witness:
  "dispatchAll initialState
     [SET_NEXT_PAGE, SET_NEXT_PAGE, SET_SELECTED_SORT ''Rating:asc'', SET_PREV_PAGE,
      SET_PREV_PAGE, SET_PREV_PAGE, SET_TOTAL 3]
     = Some (initialState\<lparr>sort_st := ''Rating:asc'', total_st := 3, hasTotal := True\<rparr>) \<and>
   0 \<le> offset (initialState\<lparr>sort_st := ''Rating:asc'', total_st := 3, hasTotal := True\<rparr>) \<and>
   limit (initialState\<lparr>sort_st := ''Rating:asc'', total_st := 3, hasTotal := True\<rparr>) = 10"
proof -
  have h: "dispatchAll initialState
     [SET_NEXT_PAGE, SET_NEXT_PAGE, SET_SELECTED_SORT ''Rating:asc'', SET_PREV_PAGE,
      SET_PREV_PAGE, SET_PREV_PAGE, SET_TOTAL 3]
     = Some (initialState\<lparr>sort_st := ''Rating:asc'', total_st := 3, hasTotal := True\<rparr>)"
    by (simp add: initialState_def)
  show ?thesis
    using h reachable_offset_limit [OF h] by blast
qed

text \<open>
  C10: \<open>SET_REVIEWS\<close> with a \<open>null\<close> or \<open>undefined\<close> payload stores the empty list; so after
  any \<open>SET_REVIEWS\<close>, from any state and with any payload, the reviews field is not \<open>null\<close>
  and the list region does not show the loading text.
\<close>

theorem set_reviews_never_null:
  "reducer s (SET_REVIEWS None) = Some (s\<lparr>reviews := Some []\<rparr>) \<and>
   (\<exists>s'. reducer s (SET_REVIEWS r) = Some s' \<and> reviews s' \<noteq> None \<and>
      renderComments dateParse now s' \<noteq> LoadingReviews)"
  by (simp add: renderComments_def)

theorem set_reviews_never_null_witness:
  "reducer initialState (SET_REVIEWS None) = Some (initialState\<lparr>reviews := Some []\<rparr>) \<and>
   renderComments (\<lambda>x. None) 0 initialState = LoadingReviews \<and>
   renderComments (\<lambda>x. None) 0 (initialState\<lparr>reviews := Some []\<rparr>) = NoReviews"
  using set_reviews_never_null [of initialState]
  by (simp add: renderComments_def initialState_def)

section \<open>Rendering: claims C6 and C8\<close>

lemma toStringInt_12: "toStringInt 12 = ''12''"
  by code_simp

text \<open>
  C6: the loading label is shown exactly when \<open>hasTotal\<close> is false or \<open>hasAverage\<close> is
  false; when both are loaded and the total is 0 nothing is rendered; otherwise the stars,
  the numeric average and the count text \<open>(N Reviews)\<close> are rendered.
\<close>

theorem summary_render_rule:
  "(renderSummary s = LoadingSummary \<longleftrightarrow> \<not> hasTotal s \<or> \<not> hasAverage s) \<and>
   (hasTotal s \<and> hasAverage s \<and> total_st s = 0 \<longrightarrow> renderSummary s = NoSummary) \<and>
   (hasTotal s \<and> hasAverage s \<and> total_st s \<noteq> 0 \<longrightarrow>
      renderSummary s =
        RatingSummary (average s) (average s) (''('' @ toStringInt (total_st s) @ '' Reviews)''))"
  by (simp add: renderSummary_def)

theorem summary_render_rule_witness:
  "renderSummary initialState = LoadingSummary \<and>
   renderSummary (initialState\<lparr>hasTotal := True, hasAverage := True\<rparr>) = NoSummary \<and>
   renderSummary
     (initialState\<lparr>total_st := 12, average := 9 / 2, hasTotal := True, hasAverage := True\<rparr>)
     = RatingSummary (9 / 2) (9 / 2) ''(12 Reviews)''"
  using summary_render_rule [of initialState]
    summary_render_rule [of "initialState\<lparr>hasTotal := True, hasAverage := True\<rparr>"]
    summary_render_rule
      [of "initialState\<lparr>total_st := 12, average := 9 / 2, hasTotal := True, hasAverage := True\<rparr>"]
  by (simp add: initialState_def toStringInt_12)

text \<open>
  C8, as the source has it: whenever the loaded review page is not empty, the list region
  holds the pager, which is given the 1-indexed range from \<open>offset + 1\<close> to
  \<open>offset + limit\<close>, the total count, and the handlers that dispatch \<open>SET_NEXT_PAGE\<close> and
  \<open>SET_PREV_PAGE\<close>; what the pager is given does not depend on the page that was returned,
  so the enabling of next and previous is left to the pager component, from the range
  and the total. For offset 0, limit 10 and a page of 10 reviews the range is 1 through 10.
\<close>

theorem pager_range_props:
  assumes "reviews s = Some rs" and "rs \<noteq> []"
  shows "renderComments dateParse now s =
           ReviewList options (sort_st s) (map (reviewEntry dateParse now) rs)
             (paginationProps s) \<and>
         currentItemFrom (paginationProps s) = offset s + 1 \<and>
         currentItemTo (paginationProps s) = offset s + limit s \<and>
         totalItems (paginationProps s) = total_st s \<and>
         onNextClick (paginationProps s) = SET_NEXT_PAGE \<and>
         onPrevClick (paginationProps s) = SET_PREV_PAGE \<and>
         paginationProps (s\<lparr>reviews := other\<rparr>) = paginationProps s"
  using assms by (simp add: renderComments_def paginationProps_def)

theorem pager_range_props_witness:
  "currentItemFrom (paginationProps (initialState\<lparr>reviews := Some (replicate 10
      \<lparr>id_r = 1, cacheId = 1, productId = ''P1'', rating = 5, title = ''Good'',
       text_r = ''Fine'', reviewerName = ''Ann'', shopperId = ''u1'',
       reviewDateTime = ''01/01/2020 00:30:00'', verifiedPurchaser = True\<rparr>)\<rparr>)) = 1 \<and>
   currentItemTo (paginationProps (initialState\<lparr>reviews := Some (replicate 10
      \<lparr>id_r = 1, cacheId = 1, productId = ''P1'', rating = 5, title = ''Good'',
       text_r = ''Fine'', reviewerName = ''Ann'', shopperId = ''u1'',
       reviewDateTime = ''01/01/2020 00:30:00'', verifiedPurchaser = True\<rparr>)\<rparr>)) = 10"
proof -
  let ?rs = "replicate 10
      \<lparr>id_r = 1, cacheId = 1, productId = ''P1'', rating = 5, title = ''Good'',
       text_r = ''Fine'', reviewerName = ''Ann'', shopperId = ''u1'',
       reviewDateTime = ''01/01/2020 00:30:00'', verifiedPurchaser = True\<rparr>"
  have a: "reviews (initialState\<lparr>reviews := Some ?rs\<rparr>) = Some ?rs"
    by simp
  have b: "?rs \<noteq> []"
    by simp
  show ?thesis
    using pager_range_props [OF a b] by (simp add: initialState_def)
qed

text \<open>
  C8 as claimed fails: a full page (10 reviews for the limit 10) and a short page
  (3 reviews) give the pager the very same props, so the pager cannot enable or disable
  next and previous on whether a full page was returned.
\<close>

theorem pager_ignores_page_length:
  "int (length (replicate 10
      \<lparr>id_r = 1, cacheId = 1, productId = ''P1'', rating = 5, title = ''Good'',
       text_r = ''Fine'', reviewerName = ''Ann'', shopperId = ''u1'',
       reviewDateTime = ''01/01/2020 00:30:00'', verifiedPurchaser = True\<rparr>)) = limit initialState \<and>
   int (length (replicate 3
      \<lparr>id_r = 1, cacheId = 1, productId = ''P1'', rating = 5, title = ''Good'',
       text_r = ''Fine'', reviewerName = ''Ann'', shopperId = ''u1'',
       reviewDateTime = ''01/01/2020 00:30:00'', verifiedPurchaser = True\<rparr>)) < limit initialState \<and>
   paginationProps (initialState\<lparr>reviews := Some (replicate 10
      \<lparr>id_r = 1, cacheId = 1, productId = ''P1'', rating = 5, title = ''Good'',
       text_r = ''Fine'', reviewerName = ''Ann'', shopperId = ''u1'',
       reviewDateTime = ''01/01/2020 00:30:00'', verifiedPurchaser = True\<rparr>)\<rparr>) =
   paginationProps (initialState\<lparr>reviews := Some (replicate 3
      \<lparr>id_r = 1, cacheId = 1, productId = ''P1'', rating = 5, title = ''Good'',
       text_r = ''Fine'', reviewerName = ''Ann'', shopperId = ''u1'',
       reviewDateTime = ''01/01/2020 00:30:00'', verifiedPurchaser = True\<rparr>)\<rparr>)"
  by (simp add: paginationProps_def initialState_def)

end
